theory Spec2Isabelle
  imports Complex_Main "HOL-Library.Multiset"
begin

text \<open>
  A model of the diary application's logic: the mood-to-music mapper and the playlist
  creation of \<open>SpotifyService\<close> (\<open>lib/spotify.ts\<close>), \<open>analyzeSentiment\<close>
  (\<open>lib/sentiment.ts\<close>) and the listing of entries (\<open>app/api/entries/route.ts\<close>).
  Exceptions are values of a sum type, the remote services are arguments that give their
  answers, and every function is written in the order of the source.
\<close>

section \<open>JavaScript values the lookup tables can yield\<close>

text \<open>
  The tables of \<open>lib/spotify.ts\<close> are object literals read with a string key
  (\<open>genreMap[sentiment]\<close>). Such a read finds an own property first and then follows the
  prototype chain to \<open>Object.prototype\<close>, so a key that names one of its members yields
  that member (a function object, or \<open>Object.prototype\<close> itself for \<open>__proto__\<close>) and not
  \<open>undefined\<close>.
\<close>

datatype js_error = TypeError | SyntaxError | ApiError

datatype 'a js_value = Undefined | Own 'a | PrototypeMember

definition Object_prototype_keys :: "string list" where
  "Object_prototype_keys =
     [''constructor'', ''hasOwnProperty'', ''isPrototypeOf'', ''propertyIsEnumerable'',
      ''toLocaleString'', ''toString'', ''valueOf'', ''__proto__'',
      ''__defineGetter__'', ''__defineSetter__'', ''__lookupGetter__'', ''__lookupSetter__'']"

definition property :: "(string \<times> 'a) list \<Rightarrow> string \<Rightarrow> 'a js_value" where
  \<comment> \<open>\<open>obj[key]\<close> on an object literal\<close>
  "property obj key =
     (case map_of obj key of
        Some v \<Rightarrow> Own v
      | None \<Rightarrow> if key \<in> set Object_prototype_keys then PrototypeMember else Undefined)"

definition js_or :: "'a js_value \<Rightarrow> 'a js_value \<Rightarrow> 'a js_value" where
  \<comment> \<open>\<open>a || b\<close>: arrays, objects and functions are truthy, \<open>undefined\<close> is not\<close>
  "js_or a b = (case a of Undefined \<Rightarrow> b | _ \<Rightarrow> a)"

definition spread_array :: "'a list js_value \<Rightarrow> js_error + 'a list" where
  \<comment> \<open>\<open>...v\<close> inside an array literal: only an iterable can be spread\<close>
  "spread_array v = (case v of Own xs \<Rightarrow> Inr xs | _ \<Rightarrow> Inl TypeError)"

section \<open>The mood-to-music mapper of \<open>SpotifyService\<close>\<close>

subsection \<open>Genres\<close>

definition genreMap :: "(string \<times> string list) list" where
  "genreMap =
     [(''positive'', [''pop'', ''indie'', ''electronic'', ''dance'', ''funk'']),
      (''negative'', [''indie'', ''alternative'', ''blues'', ''folk'', ''ambient'']),
      (''neutral'', [''chill'', ''acoustic'', ''indie-folk'', ''ambient'', ''jazz''])]"

definition moodGenres :: "(string \<times> string list) list" where
  "moodGenres =
     [(''happy'', [''pop'', ''dance'', ''funk'', ''disco'']),
      (''energetic'', [''electronic'', ''dance'', ''rock'', ''pop'']),
      (''calm'', [''ambient'', ''chill'', ''acoustic'', ''classical'']),
      (''sad'', [''blues'', ''indie'', ''folk'', ''alternative'']),
      (''anxious'', [''ambient'', ''chill'', ''classical'']),
      (''excited'', [''pop'', ''electronic'', ''dance'']),
      (''melancholy'', [''indie'', ''alternative'', ''folk'']),
      (''peaceful'', [''ambient'', ''classical'', ''acoustic'']),
      (''angry'', [''rock'', ''alternative'', ''metal'']),
      (''content'', [''indie'', ''folk'', ''acoustic''])]"

definition getGenresBySentiment :: "string \<Rightarrow> string \<Rightarrow> js_error + string list" where
  \<comment> \<open>\<open>[...(genreMap[sentiment] || genreMap.neutral), ...(moodGenres[mood] || [])]\<close>\<close>
  "getGenresBySentiment sentiment mood =
     (case spread_array (js_or (property genreMap sentiment) (property genreMap ''neutral'')) of
        Inl e \<Rightarrow> Inl e
      | Inr base \<Rightarrow>
          (case spread_array (js_or (property moodGenres mood) (Own [])) of
             Inl e \<Rightarrow> Inl e
           | Inr extra \<Rightarrow> Inr (base @ extra)))"

subsection \<open>Audio features\<close>

text \<open>
  An object with the three feature properties, each present or absent: the rows of
  \<open>baseFeatures\<close> have all three, the rows of \<open>moodAdjustments\<close> are partial. The
  numbers are the decimal literals of the source, which are only copied and printed, never
  computed with.
\<close>

record feature_object =
  valence :: "real option"
  energy :: "real option"
  danceability :: "real option"

definition no_properties :: feature_object where
  "no_properties = \<lparr>valence = None, energy = None, danceability = None\<rparr>"

definition baseFeatures :: "(string \<times> feature_object) list" where
  "baseFeatures =
     [(''positive'', \<lparr>valence = Some 0.7, energy = Some 0.6, danceability = Some 0.6\<rparr>),
      (''negative'', \<lparr>valence = Some 0.3, energy = Some 0.4, danceability = Some 0.4\<rparr>),
      (''neutral'', \<lparr>valence = Some 0.5, energy = Some 0.5, danceability = Some 0.5\<rparr>)]"

definition moodAdjustments :: "(string \<times> feature_object) list" where
  "moodAdjustments =
     [(''energetic'', \<lparr>valence = None, energy = Some 0.8, danceability = Some 0.7\<rparr>),
      (''calm'', \<lparr>valence = Some 0.6, energy = Some 0.3, danceability = None\<rparr>),
      (''excited'', \<lparr>valence = Some 0.8, energy = Some 0.9, danceability = Some 0.8\<rparr>),
      (''sad'', \<lparr>valence = Some 0.2, energy = Some 0.3, danceability = None\<rparr>),
      (''peaceful'', \<lparr>valence = Some 0.7, energy = Some 0.2, danceability = None\<rparr>)]"

definition own_enumerable :: "feature_object js_value \<Rightarrow> feature_object" where
  \<comment> \<open>what \<open>...v\<close> inside an object literal copies: the own enumerable properties;
      \<open>undefined\<close>, a built-in function and \<open>Object.prototype\<close> have none\<close>
  "own_enumerable v = (case v of Own r \<Rightarrow> r | _ \<Rightarrow> no_properties)"

definition later_wins :: "'a option \<Rightarrow> 'a option \<Rightarrow> 'a option" where
  "later_wins earlier later = (case later of Some v \<Rightarrow> Some v | None \<Rightarrow> earlier)"

definition object_spread :: "feature_object \<Rightarrow> feature_object \<Rightarrow> feature_object" where
  \<comment> \<open>\<open>{ ...a, ...b }\<close>\<close>
  "object_spread a b =
     \<lparr>valence = later_wins (valence a) (valence b),
      energy = later_wins (energy a) (energy b),
      danceability = later_wins (danceability a) (danceability b)\<rparr>"

definition base_of :: "string \<Rightarrow> feature_object js_value" where
  \<comment> \<open>\<open>const base = baseFeatures[sentiment] || baseFeatures.neutral\<close>\<close>
  "base_of sentiment = js_or (property baseFeatures sentiment) (property baseFeatures ''neutral'')"

definition adjustments_of :: "string \<Rightarrow> feature_object js_value" where
  \<comment> \<open>\<open>const adjustments = moodAdjustments[mood] || {}\<close>\<close>
  "adjustments_of mood = js_or (property moodAdjustments mood) (Own no_properties)"

definition getAudioFeaturesBySentiment :: "string \<Rightarrow> string \<Rightarrow> feature_object" where
  \<comment> \<open>\<open>return { ...base, ...adjustments }\<close>\<close>
  "getAudioFeaturesBySentiment sentiment mood =
     object_spread (own_enumerable (base_of sentiment)) (own_enumerable (adjustments_of mood))"

abbreviation sentiment_base :: "string \<Rightarrow> feature_object" where
  "sentiment_base sentiment \<equiv> own_enumerable (base_of sentiment)"

abbreviation mood_override :: "string \<Rightarrow> feature_object" where
  "mood_override mood \<equiv> own_enumerable (adjustments_of mood)"

subsection \<open>The recommendation request\<close>

record recommendation_params =
  seed_genres :: "string list"
  target_valence :: real
  target_energy :: real
  target_danceability :: real
  limit :: nat

definition number_toString :: "real option \<Rightarrow> js_error + real" where
  \<comment> \<open>\<open>features.valence.toString()\<close>: a method call on \<open>undefined\<close> throws; the text of a
      number is not modelled, the number stands for it\<close>
  "number_toString v = (case v of None \<Rightarrow> Inl TypeError | Some x \<Rightarrow> Inr x)"

definition request_params :: "string \<Rightarrow> string \<Rightarrow> js_error + recommendation_params" where
  \<comment> \<open>the first half of the \<open>try\<close> block of \<open>getRecommendations\<close>, up to \<open>fetch\<close>;
      \<open>seed_genres\<close> is \<open>genres.slice(0, 3)\<close> before \<open>join(',')\<close>\<close>
  "request_params sentiment mood =
     (case getGenresBySentiment sentiment mood of
        Inl e \<Rightarrow> Inl e
      | Inr genres \<Rightarrow>
          (let features = getAudioFeaturesBySentiment sentiment mood in
           case number_toString (valence features) of
             Inl e \<Rightarrow> Inl e
           | Inr v \<Rightarrow>
               (case number_toString (energy features) of
                  Inl e \<Rightarrow> Inl e
                | Inr en \<Rightarrow>
                    (case number_toString (danceability features) of
                       Inl e \<Rightarrow> Inl e
                     | Inr d \<Rightarrow>
                         Inr \<lparr>seed_genres = take 3 genres, target_valence = v,
                              target_energy = en, target_danceability = d, limit = 10\<rparr>))))"

subsection \<open>\<open>getRecommendations\<close>\<close>

record SpotifyTrack =
  track_id :: string
  track_name :: string
  artists :: "string list"
  spotify_url :: string
  preview_url :: "string option"

text \<open>
  What one \<open>fetch\<close> of the catalogue service can do: reject (the network failed), or
  resolve to a response with its \<open>ok\<close> flag and a body, where \<open>None\<close> is a body that
  \<open>json()\<close> cannot read.
\<close>

datatype 'a fetch_result = Rejects | Response bool "'a option"

definition getRecommendations ::
  "(recommendation_params \<Rightarrow> SpotifyTrack list fetch_result) \<Rightarrow> string \<Rightarrow> string \<Rightarrow>
   SpotifyTrack list"
where
  \<comment> \<open>every throw inside the \<open>try\<close> block ends in \<open>return []\<close>\<close>
  "getRecommendations fetch sentiment mood =
     (case request_params sentiment mood of
        Inl e \<Rightarrow> []
      | Inr params \<Rightarrow>
          (case fetch params of
             Rejects \<Rightarrow> []
           | Response ok body \<Rightarrow>
               if \<not> ok then []
               else (case body of None \<Rightarrow> [] | Some tracks \<Rightarrow> tracks)))"

subsection \<open>\<open>createPlaylist\<close>\<close>

record playlist =
  playlist_id :: string
  playlist_url :: string

datatype api_call =
    GetMe
  | PostPlaylist string string
  | PostTracks string "string list"

text \<open>
  The catalogue service as \<open>createPlaylist\<close> sees it: the answer to each of its three
  requests. The body of \<open>/v1/me\<close> is read for the user's id only.
\<close>

record spotify_api =
  me :: "string fetch_result"
  users_playlists :: "string \<Rightarrow> string \<Rightarrow> playlist fetch_result"
  playlists_tracks :: "string \<Rightarrow> string list \<Rightarrow> unit fetch_result"

definition track_uris :: "string list \<Rightarrow> string list" where
  \<comment> \<open>\<open>trackIds.map(id => `spotify:track:${id}`)\<close>\<close>
  "track_uris trackIds = map (\<lambda>i. ''spotify:track:'' @ i) trackIds"

definition add_tracks ::
  "spotify_api \<Rightarrow> playlist \<Rightarrow> string list \<Rightarrow> playlist option \<times> api_call list"
where
  \<comment> \<open>the third request: awaited, its response never looked at\<close>
  "add_tracks api pl trackIds =
     (if length trackIds > 0 then
        (case playlists_tracks api (playlist_id pl) (track_uris trackIds) of
           Rejects \<Rightarrow> (None, [PostTracks (playlist_id pl) (track_uris trackIds)])
         | Response ok body \<Rightarrow> (Some pl, [PostTracks (playlist_id pl) (track_uris trackIds)]))
      else (Some pl, []))"

definition createPlaylist ::
  "spotify_api \<Rightarrow> string \<Rightarrow> string list \<Rightarrow> playlist option \<times> api_call list"
where
  \<comment> \<open>the result (\<open>None\<close> is \<open>null\<close>) and the requests sent, in order\<close>
  "createPlaylist api name trackIds =
     (case me api of
        Rejects \<Rightarrow> (None, [GetMe])
      | Response ok body \<Rightarrow>
          if \<not> ok then (None, [GetMe])
          else (case body of
            None \<Rightarrow> (None, [GetMe])
          | Some user_id \<Rightarrow>
              (case users_playlists api user_id name of
                 Rejects \<Rightarrow> (None, [GetMe, PostPlaylist user_id name])
               | Response ok' body' \<Rightarrow>
                   if \<not> ok' then (None, [GetMe, PostPlaylist user_id name])
                   else (case body' of
                     None \<Rightarrow> (None, [GetMe, PostPlaylist user_id name])
                   | Some pl \<Rightarrow>
                       (let (result, calls) = add_tracks api pl trackIds
                        in (result, [GetMe, PostPlaylist user_id name] @ calls))))))"

section \<open>\<open>analyzeSentiment\<close> of \<open>lib/sentiment.ts\<close>\<close>

datatype json =
    JNull
  | JBool bool
  | JNumber real
  | JString string
  | JArray "json list"
  | JObject "(string \<times> json) list"

text \<open>
  The completion request either rejects or resolves to a response whose \<open>choices\<close> are
  given here by the \<open>content\<close> of each message (\<open>None\<close> for \<open>null\<close>). \<open>JSON.parse\<close> is
  a parameter: a function from the text to the value, or to the \<open>SyntaxError\<close> it throws.
\<close>

datatype chat_completion = RequestRejects | Completion "string option list"

definition content_or_empty_object :: "string option \<Rightarrow> string" where
  \<comment> \<open>\<open>content || '{}'\<close>: \<open>null\<close> and the empty string are falsy\<close>
  "content_or_empty_object content =
     (case content of None \<Rightarrow> ''{}'' | Some t \<Rightarrow> if t = [] then ''{}'' else t)"

definition analyzeSentiment_try ::
  "(string \<Rightarrow> js_error + json) \<Rightarrow> chat_completion \<Rightarrow> js_error + json"
where
  \<comment> \<open>the \<open>try\<close> block; reading \<open>choices[0].message\<close> of an empty \<open>choices\<close> throws\<close>
  "analyzeSentiment_try JSON_parse response =
     (case response of
        RequestRejects \<Rightarrow> Inl ApiError
      | Completion choices \<Rightarrow>
          (case choices of
             [] \<Rightarrow> Inl TypeError
           | content # _ \<Rightarrow> JSON_parse (content_or_empty_object content)))"

definition neutral_default :: json where
  "neutral_default =
     JObject [(''sentiment'', JString ''neutral''), (''confidence'', JNumber 0.5),
              (''mood'', JString ''calm'')]"

definition analyzeSentiment ::
  "(string \<Rightarrow> js_error + json) \<Rightarrow> chat_completion \<Rightarrow> js_error + json"
where
  \<comment> \<open>\<open>Inr\<close> is the value the promise resolves to, \<open>Inl\<close> would be a rejection\<close>
  "analyzeSentiment JSON_parse response =
     (case analyzeSentiment_try JSON_parse response of
        Inl e \<Rightarrow> Inr neutral_default
      | Inr result \<Rightarrow> Inr result)"

definition is_SentimentResult :: "json \<Rightarrow> bool" where
  \<comment> \<open>the shape the \<open>SentimentResult\<close> interface declares\<close>
  "is_SentimentResult v =
     (case v of
        JObject props \<Rightarrow>
          (case map_of props ''sentiment'' of
             Some (JString s) \<Rightarrow> s \<in> {''positive'', ''negative'', ''neutral''}
           | _ \<Rightarrow> False) \<and>
          (case map_of props ''confidence'' of Some (JNumber c) \<Rightarrow> True | _ \<Rightarrow> False) \<and>
          (case map_of props ''mood'' of Some (JString m) \<Rightarrow> True | _ \<Rightarrow> False) \<and>
          (case map_of props ''explanation'' of
             None \<Rightarrow> True | Some (JString x) \<Rightarrow> True | _ \<Rightarrow> False)
      | _ \<Rightarrow> False)"

definition classifier_call_failed ::
  "(string \<Rightarrow> js_error + json) \<Rightarrow> chat_completion \<Rightarrow> bool"
where
  \<comment> \<open>the failures the interface contract lists: a network error, a malformed response
      (no choice, no content, or a value that is no \<open>SentimentResult\<close>), a parse error\<close>
  "classifier_call_failed JSON_parse response =
     (case response of
        RequestRejects \<Rightarrow> True
      | Completion choices \<Rightarrow>
          (case choices of
             [] \<Rightarrow> True
           | content # _ \<Rightarrow>
               (case content of
                  None \<Rightarrow> True
                | Some t \<Rightarrow>
                    (case JSON_parse t of Inl e \<Rightarrow> True | Inr v \<Rightarrow> \<not> is_SentimentResult v))))"

definition parse_empty_object_only :: "string \<Rightarrow> js_error + json" where
  \<comment> \<open>\<open>JSON.parse\<close> cut down to the one text \<open>'{}'\<close>, for concrete instances\<close>
  "parse_empty_object_only t = (if t = ''{}'' then Inr (JObject []) else Inl SyntaxError)"

section \<open>Listing entries: \<open>GET\<close> of \<open>app/api/entries/route.ts\<close>\<close>

record user =
  user_id :: string
  email :: "string option"

text \<open>
  An \<open>Entry\<close> row. \<open>date\<close> is the column the listing orders by; the \<open>POST\<close> handler never
  passes it, so the schema's \<open>@default(now())\<close> sets it when the row is created. Time
  is counted in milliseconds.
\<close>

record entry =
  entry_id :: string
  userId :: string
  content :: string
  date :: int

record database =
  users :: "user list"
  entries :: "entry list"

datatype http_error = Unauthorized_401 | NotFound_404 | ServerError_500

definition findUnique_email :: "database \<Rightarrow> string \<Rightarrow> user option" where
  \<comment> \<open>\<open>prisma.user.findUnique({ where: { email } })\<close>\<close>
  "findUnique_email db e = find (\<lambda>u. email u = Some e) (users db)"

definition findMany_entries ::
  "(entry list \<Rightarrow> entry list) \<Rightarrow> database \<Rightarrow> string \<Rightarrow> nat \<Rightarrow> entry list"
where
  \<comment> \<open>\<open>prisma.entry.findMany({ where: { userId }, orderBy: { date: 'desc' }, take })\<close>,
      a call into the ORM, by its documented meaning: filter, sort, truncate. The order
      of rows with the same \<open>date\<close> is not the handler's but the store's: \<open>store_order\<close>
      is the order in which the store yields the matching rows, which the sort by \<open>date\<close>
      keeps among equal dates. Every listing sorted by \<open>date\<close> arises from some
      \<open>store_order\<close>.\<close>
  "findMany_entries store_order db uid n =
     take n (sort_key (\<lambda>e. - date e) (store_order (filter (\<lambda>e. userId e = uid) (entries db))))"

definition reorders :: "(entry list \<Rightarrow> entry list) \<Rightarrow> bool" where
  \<comment> \<open>all a store may do to the matching rows: yield them in another order\<close>
  "reorders store_order = (\<forall>rows. mset (store_order rows) = mset rows)"

definition GET ::
  "(entry list \<Rightarrow> entry list) \<Rightarrow> string option \<Rightarrow> database option \<Rightarrow> http_error + entry list"
where
  \<comment> \<open>the session is given by \<open>session?.user?.email\<close> (an empty string is falsy);
      a database that is \<open>None\<close> throws on every query\<close>
  "GET store_order session_email store =
     (case session_email of
        None \<Rightarrow> Inl Unauthorized_401
      | Some e \<Rightarrow>
          if e = [] then Inl Unauthorized_401
          else (case store of
            None \<Rightarrow> Inl ServerError_500
          | Some db \<Rightarrow>
              (case findUnique_email db e of
                 None \<Rightarrow> Inl NotFound_404
               | Some u \<Rightarrow> Inr (findMany_entries store_order db (user_id u) 50))))"

section \<open>Notions the properties are stated with\<close>

definition sentimentGenres :: "string \<Rightarrow> string list" where
  \<comment> \<open>the sentiment's row of \<open>genreMap\<close>, the \<open>neutral\<close> row when it has none\<close>
  "sentimentGenres sentiment =
     (case map_of genreMap sentiment of
        Some row \<Rightarrow> row
      | None \<Rightarrow> (case map_of genreMap ''neutral'' of Some row \<Rightarrow> row | None \<Rightarrow> []))"

definition moodGenresOf :: "string \<Rightarrow> string list" where
  \<comment> \<open>the mood's row of \<open>moodGenres\<close>, empty when it has none\<close>
  "moodGenresOf mood = (case map_of moodGenres mood of Some row \<Rightarrow> row | None \<Rightarrow> [])"

fun dedup_from :: "'a list \<Rightarrow> 'a list \<Rightarrow> 'a list" where
  "dedup_from seen [] = []"
| "dedup_from seen (x # xs) =
     (if x \<in> set seen then dedup_from seen xs else x # dedup_from (x # seen) xs)"

definition GenreSeedSet_spec :: "string \<Rightarrow> string \<Rightarrow> string list" where
  \<comment> \<open>the seed set in the data model's words: sentiment genres first, then mood genres,
      each genre kept at its first place only, cut to the service's three seeds\<close>
  "GenreSeedSet_spec sentiment mood =
     take 3 (dedup_from [] (sentimentGenres sentiment @ moodGenresOf mood))"



definition in_unit_interval :: "real \<Rightarrow> bool" where
  "in_unit_interval x = (0 \<le> x \<and> x \<le> 1)"

definition newest_first :: "entry list \<Rightarrow> bool" where
  "newest_first es = sorted_wrt (\<lambda>a b. date a \<ge> date b) es"

definition strictly_newest_first :: "entry list \<Rightarrow> bool" where
  "strictly_newest_first es = sorted_wrt (\<lambda>a b. date a > date b) es"

definition within_unit :: "real option \<Rightarrow> bool" where
  \<comment> \<open>a property that, when present, lies in the unit interval\<close>
  "within_unit v = (case v of None \<Rightarrow> True | Some x \<Rightarrow> in_unit_interval x)"

definition present_within_unit :: "real option \<Rightarrow> bool" where
  "present_within_unit v = (case v of None \<Rightarrow> False | Some x \<Rightarrow> in_unit_interval x)"

section \<open>Concrete instances\<close>

text \<open>
  A service that answers the first two requests of \<open>createPlaylist\<close> and refuses the
  third with an error status, and a store in which one user has two entries of the same
  instant.
\<close>

definition tracks_refused_api :: spotify_api where
  "tracks_refused_api =
     \<lparr>me = Response True (Some ''u1''),
      users_playlists = (\<lambda>user_id name.
        Response True (Some \<lparr>playlist_id = ''p1'',
                               playlist_url = ''https://open.spotify.com/playlist/p1''\<rparr>)),
      playlists_tracks = (\<lambda>pid uris. Response False None)\<rparr>"

definition same_instant_db :: database where
  "same_instant_db =
     \<lparr>users = [\<lparr>user_id = ''u1'', email = Some ''a@b.c''\<rparr>],
      entries = [\<lparr>entry_id = ''e1'', userId = ''u1'', content = ''first'', date = 1000\<rparr>,
                 \<lparr>entry_id = ''e2'', userId = ''u1'', content = ''second'', date = 1000\<rparr>]\<rparr>"

section \<open>Facts about the lookup tables\<close>

subsection \<open>Keys\<close>

lemma inherited_not_sentiment: "\<forall>k \<in> set Object_prototype_keys. map_of genreMap k = None"
  by (simp add: Object_prototype_keys_def genreMap_def)

lemma inherited_not_mood: "\<forall>k \<in> set Object_prototype_keys. map_of moodGenres k = None"
  by (simp add: Object_prototype_keys_def moodGenres_def)

lemma inherited_not_base: "\<forall>k \<in> set Object_prototype_keys. map_of baseFeatures k = None"
  by (simp add: Object_prototype_keys_def baseFeatures_def)

lemma inherited_not_adjustment: "\<forall>k \<in> set Object_prototype_keys. map_of moodAdjustments k = None"
  by (simp add: Object_prototype_keys_def moodAdjustments_def)

lemma neutral_genres:
  "map_of genreMap ''neutral'' = Some [''chill'', ''acoustic'', ''indie-folk'', ''ambient'', ''jazz'']"
  by (simp add: genreMap_def)

lemma neutral_features:
  "map_of baseFeatures ''neutral'' =
     Some \<lparr>valence = Some 0.5, energy = Some 0.5, danceability = Some 0.5\<rparr>"
  by (simp add: baseFeatures_def)

lemma same_keys: "map_of baseFeatures k = None \<longleftrightarrow> map_of genreMap k = None"
  by (simp add: baseFeatures_def genreMap_def)

subsection \<open>The two lookups of getGenresBySentiment\<close>

lemma sentiment_lookup:
  "js_or (property genreMap s) (property genreMap ''neutral'') =
     (if s \<in> set Object_prototype_keys then PrototypeMember else Own (sentimentGenres s))"
proof (cases "map_of genreMap s")
  case None
  then show ?thesis
    by (simp add: js_or_def property_def sentimentGenres_def neutral_genres)
next
  case (Some row)
  with inherited_not_sentiment have "s \<notin> set Object_prototype_keys" by force
  with Some show ?thesis
    by (simp add: js_or_def property_def sentimentGenres_def)
qed

lemma mood_lookup:
  "js_or (property moodGenres m) (Own []) =
     (if m \<in> set Object_prototype_keys then PrototypeMember else Own (moodGenresOf m))"
proof (cases "map_of moodGenres m")
  case None
  then show ?thesis
    by (simp add: js_or_def property_def moodGenresOf_def)
next
  case (Some row)
  with inherited_not_mood have "m \<notin> set Object_prototype_keys" by force
  with Some show ?thesis
    by (simp add: js_or_def property_def moodGenresOf_def)
qed

lemma getGenresBySentiment_eq:
  "getGenresBySentiment s m =
     (if s \<in> set Object_prototype_keys \<or> m \<in> set Object_prototype_keys then Inl TypeError
      else Inr (sentimentGenres s @ moodGenresOf m))"
  unfolding getGenresBySentiment_def sentiment_lookup mood_lookup
  by (simp add: spread_array_def)

lemma genreMap_rows: "\<forall>(k, row) \<in> set genreMap. length row = 5 \<and> distinct row"
  by (simp add: genreMap_def)

lemma sentimentGenres_row: "length (sentimentGenres s) = 5 \<and> distinct (sentimentGenres s)"
proof (cases "map_of genreMap s")
  case None
  then show ?thesis by (simp add: sentimentGenres_def neutral_genres)
next
  case (Some row)
  then have "(s, row) \<in> set genreMap" by (rule map_of_SomeD)
  with genreMap_rows have "length row = 5 \<and> distinct row" by blast
  with Some show ?thesis by (simp add: sentimentGenres_def)
qed

lemma take3_sentiment_first: "take 3 (sentimentGenres s @ ys) = take 3 (sentimentGenres s)"
  using sentimentGenres_row [of s] by simp

subsection \<open>The two lookups of getAudioFeaturesBySentiment\<close>

lemma baseFeatures_rows:
  "\<forall>(k, r) \<in> set baseFeatures.
     present_within_unit (valence r) \<and> present_within_unit (energy r) \<and>
     present_within_unit (danceability r)"
  by (simp add: baseFeatures_def present_within_unit_def in_unit_interval_def)

lemma moodAdjustments_rows:
  "\<forall>(k, r) \<in> set moodAdjustments.
     within_unit (valence r) \<and> within_unit (energy r) \<and> within_unit (danceability r)"
  by (simp add: moodAdjustments_def within_unit_def in_unit_interval_def)

lemma mood_override_eq:
  "mood_override m = (case map_of moodAdjustments m of Some r \<Rightarrow> r | None \<Rightarrow> no_properties)"
  by (simp add: adjustments_of_def js_or_def property_def own_enumerable_def split: option.splits)

lemma sentiment_base_eq:
  "sentiment_base s =
     (if s \<in> set Object_prototype_keys then no_properties
      else case map_of baseFeatures s of
             Some r \<Rightarrow> r
           | None \<Rightarrow> \<lparr>valence = Some 0.5, energy = Some 0.5, danceability = Some 0.5\<rparr>)"
proof (cases "map_of baseFeatures s")
  case None
  then show ?thesis
    by (simp add: base_of_def js_or_def property_def own_enumerable_def neutral_features)
next
  case (Some r)
  with inherited_not_base have "s \<notin> set Object_prototype_keys" by force
  with Some show ?thesis
    by (simp add: base_of_def js_or_def property_def own_enumerable_def)
qed

lemma sentiment_base_complete:
  assumes "s \<notin> set Object_prototype_keys"
  shows "present_within_unit (valence (sentiment_base s)) \<and>
         present_within_unit (energy (sentiment_base s)) \<and>
         present_within_unit (danceability (sentiment_base s))"
proof (cases "map_of baseFeatures s")
  case None
  with assms show ?thesis
    by (simp add: sentiment_base_eq present_within_unit_def in_unit_interval_def)
next
  case (Some r)
  then have "(s, r) \<in> set baseFeatures" by (rule map_of_SomeD)
  with baseFeatures_rows have
    "present_within_unit (valence r) \<and> present_within_unit (energy r) \<and>
     present_within_unit (danceability r)" by blast
  with Some assms show ?thesis by (simp add: sentiment_base_eq)
qed

lemma mood_override_within:
  "within_unit (valence (mood_override m)) \<and> within_unit (energy (mood_override m)) \<and>
   within_unit (danceability (mood_override m))"
proof (cases "map_of moodAdjustments m")
  case None
  then show ?thesis by (simp add: mood_override_eq no_properties_def within_unit_def)
next
  case (Some r)
  then have "(m, r) \<in> set moodAdjustments" by (rule map_of_SomeD)
  with moodAdjustments_rows have
    "within_unit (valence r) \<and> within_unit (energy r) \<and> within_unit (danceability r)" by blast
  with Some show ?thesis by (simp add: mood_override_eq)
qed

lemma later_wins_present:
  "present_within_unit a \<Longrightarrow> within_unit b \<Longrightarrow> present_within_unit (later_wins a b)"
  by (cases b) (simp_all add: later_wins_def within_unit_def present_within_unit_def)

lemma features_complete:
  assumes "s \<notin> set Object_prototype_keys"
  shows "present_within_unit (valence (getAudioFeaturesBySentiment s m)) \<and>
         present_within_unit (energy (getAudioFeaturesBySentiment s m)) \<and>
         present_within_unit (danceability (getAudioFeaturesBySentiment s m))"
  using sentiment_base_complete [OF assms] mood_override_within [of m]
  by (simp add: getAudioFeaturesBySentiment_def object_spread_def later_wins_present)

lemma present_within_unitE:
  assumes "present_within_unit v"
  obtains x where "v = Some x" and "in_unit_interval x"
  using assms by (cases v) (simp_all add: present_within_unit_def)

lemma request_params_returns:
  assumes s: "s \<notin> set Object_prototype_keys" and m: "m \<notin> set Object_prototype_keys"
  shows "\<exists>v e d. request_params s m =
           Inr \<lparr>seed_genres = take 3 (sentimentGenres s), target_valence = v,
                target_energy = e, target_danceability = d, limit = 10\<rparr> \<and>
           in_unit_interval v \<and> in_unit_interval e \<and> in_unit_interval d"
proof -
  from features_complete [OF s, of m] obtain v e d where
    fs: "valence (getAudioFeaturesBySentiment s m) = Some v"
        "energy (getAudioFeaturesBySentiment s m) = Some e"
        "danceability (getAudioFeaturesBySentiment s m) = Some d"
    and unit: "in_unit_interval v" "in_unit_interval e" "in_unit_interval d"
    by (auto elim!: present_within_unitE)
  from s m have "request_params s m =
      Inr \<lparr>seed_genres = take 3 (sentimentGenres s), target_valence = v,
           target_energy = e, target_danceability = d, limit = 10\<rparr>"
    using sentimentGenres_row [of s]
    by (simp add: request_params_def getGenresBySentiment_eq fs number_toString_def)
  with unit show ?thesis by blast
qed

lemma request_params_throws:
  "s \<in> set Object_prototype_keys \<or> m \<in> set Object_prototype_keys \<Longrightarrow>
   request_params s m = Inl TypeError"
  by (simp add: request_params_def getGenresBySentiment_eq)

lemma request_params_Inr_iff:
  "(\<exists>p. request_params s m = Inr p) \<longleftrightarrow>
   s \<notin> set Object_prototype_keys \<and> m \<notin> set Object_prototype_keys"
  using request_params_returns [of s m] request_params_throws [of s m] by auto

subsection \<open>Unknown keys and evaluation\<close>

lemmas table_defs =
  genreMap_def moodGenres_def baseFeatures_def moodAdjustments_def Object_prototype_keys_def

lemmas mapper_defs =
  request_params_def getGenresBySentiment_def getAudioFeaturesBySentiment_def
  property_def js_or_def spread_array_def own_enumerable_def object_spread_def later_wins_def
  base_of_def adjustments_of_def number_toString_def no_properties_def

lemma adjusted_moods_have_genres: "\<forall>(k, r) \<in> set moodAdjustments. map_of moodGenres k \<noteq> None"
  by (simp add: moodAdjustments_def moodGenres_def del: not_None_eq)

lemma no_genres_no_adjustment:
  assumes "map_of moodGenres m = None"
  shows "map_of moodAdjustments m = None"
proof (cases "map_of moodAdjustments m")
  case None
  then show ?thesis .
next
  case (Some r)
  then have "(m, r) \<in> set moodAdjustments" by (rule map_of_SomeD)
  with adjusted_moods_have_genres assms show ?thesis by blast
qed

lemma unknown_sentiment_is_neutral:
  assumes "map_of genreMap s = None" and "s \<notin> set Object_prototype_keys"
  shows "getGenresBySentiment s m = getGenresBySentiment ''neutral'' m"
    and "getAudioFeaturesBySentiment s m = getAudioFeaturesBySentiment ''neutral'' m"
proof -
  have n: "''neutral'' \<notin> set Object_prototype_keys"
    by (simp add: Object_prototype_keys_def)
  from assms show "getGenresBySentiment s m = getGenresBySentiment ''neutral'' m"
    by (simp add: getGenresBySentiment_eq n sentimentGenres_def neutral_genres)
  from assms have "map_of baseFeatures s = None" by (simp add: same_keys)
  with assms n show "getAudioFeaturesBySentiment s m = getAudioFeaturesBySentiment ''neutral'' m"
    by (simp add: getAudioFeaturesBySentiment_def sentiment_base_eq neutral_features)
qed

lemma unknown_mood_adds_nothing:
  assumes "map_of moodGenres m = None" and "m \<notin> set Object_prototype_keys"
  shows "getGenresBySentiment s m =
           (if s \<in> set Object_prototype_keys then Inl TypeError else Inr (sentimentGenres s))"
    and "getAudioFeaturesBySentiment s m = sentiment_base s"
proof -
  from assms show "getGenresBySentiment s m =
           (if s \<in> set Object_prototype_keys then Inl TypeError else Inr (sentimentGenres s))"
    by (simp add: getGenresBySentiment_eq moodGenresOf_def)
  from assms(1) have "map_of moodAdjustments m = None" by (rule no_genres_no_adjustment)
  then show "getAudioFeaturesBySentiment s m = sentiment_base s"
    by (simp add: getAudioFeaturesBySentiment_def mood_override_eq object_spread_def
        later_wins_def no_properties_def)
qed

lemma dedup_from_distinct_prefix:
  "distinct xs \<Longrightarrow> set xs \<inter> set seen = {} \<Longrightarrow>
   dedup_from seen (xs @ ys) = xs @ dedup_from (rev xs @ seen) ys"
  by (induction xs arbitrary: seen) auto

section \<open>The genre seeds\<close>

text \<open>
  C1. The list \<open>getGenresBySentiment\<close> returns is the sentiment's row followed by the mood's
  row, with nothing removed, and the seeds of the request are the first three entries of
  that concatenation. The only inputs for which no list is returned are the names
  inherited from \<open>Object.prototype\<close>, where the spread throws.
\<close>

theorem seeds_concatenate_then_truncate:
  "getGenresBySentiment s m =
     (if s \<in> set Object_prototype_keys \<or> m \<in> set Object_prototype_keys then Inl TypeError
      else Inr (sentimentGenres s @ moodGenresOf m)) \<and>
   map_sum id seed_genres (request_params s m) =
     (if s \<in> set Object_prototype_keys \<or> m \<in> set Object_prototype_keys then Inl TypeError
      else Inr (take 3 (sentimentGenres s @ moodGenresOf m)))"
proof (cases "s \<in> set Object_prototype_keys \<or> m \<in> set Object_prototype_keys")
  case True
  then show ?thesis
    by (simp add: getGenresBySentiment_eq request_params_throws)
next
  case False
  then obtain v e d where "request_params s m =
      Inr \<lparr>seed_genres = take 3 (sentimentGenres s), target_valence = v,
           target_energy = e, target_danceability = d, limit = 10\<rparr>"
    using request_params_returns [of s m] by blast
  with False show ?thesis
    using sentimentGenres_row [of s] by (simp add: getGenresBySentiment_eq)
qed

theorem seeds_concatenate_then_truncate_witness:
  "getGenresBySentiment ''positive'' ''happy'' =
     Inr [''pop'', ''indie'', ''electronic'', ''dance'', ''funk'',
          ''pop'', ''dance'', ''funk'', ''disco''] \<and>
   map_sum id seed_genres (request_params ''positive'' ''happy'') =
     Inr [''pop'', ''indie'', ''electronic'']"
  using seeds_concatenate_then_truncate [of "''positive''" "''happy''"]
  by (simp add: sentimentGenres_def moodGenresOf_def table_defs)

text \<open>
  C9. The seed set the mapper derives is what the data model describes: the sentiment's
  genres first and the mood's after, each genre at its first place only, cut to three. It
  has no duplicates and at most three entries. The code removes nothing itself; the first
  three entries of the concatenation are already distinct. A seed set is derived for all
  keys but those inherited from \<open>Object.prototype\<close>.
\<close>

theorem seed_set_distinct_in_construction_order:
  "(request_params s m = Inr p \<longrightarrow>
      seed_genres p = GenreSeedSet_spec s m \<and> distinct (seed_genres p) \<and>
      length (seed_genres p) \<le> 3) \<and>
   ((\<exists>q. request_params s m = Inr q) \<longleftrightarrow>
      s \<notin> set Object_prototype_keys \<and> m \<notin> set Object_prototype_keys)"
proof -
  have "seed_genres p = GenreSeedSet_spec s m \<and> distinct (seed_genres p) \<and>
        length (seed_genres p) \<le> 3"
    if p: "request_params s m = Inr p"
  proof -
    from p have "s \<notin> set Object_prototype_keys \<and> m \<notin> set Object_prototype_keys"
      using request_params_Inr_iff [of s m] by blast
    with p have seeds: "seed_genres p = take 3 (sentimentGenres s)"
      using request_params_returns [of s m] by auto
    have row: "length (sentimentGenres s) = 5" "distinct (sentimentGenres s)"
      using sentimentGenres_row [of s] by simp_all
    have "dedup_from [] (sentimentGenres s @ moodGenresOf m) =
          sentimentGenres s @ dedup_from (rev (sentimentGenres s) @ []) (moodGenresOf m)"
      using row(2) by (intro dedup_from_distinct_prefix) simp_all
    with row(1) have "GenreSeedSet_spec s m = take 3 (sentimentGenres s)"
      by (simp add: GenreSeedSet_spec_def)
    with seeds row show ?thesis by simp
  qed
  then show ?thesis
    using request_params_Inr_iff [of s m] by blast
qed

theorem seed_set_distinct_in_construction_order_witness:
  "request_params ''negative'' ''sad'' =
     Inr \<lparr>seed_genres = [''indie'', ''alternative'', ''blues''], target_valence = 0.2,
          target_energy = 0.3, target_danceability = 0.4, limit = 10\<rparr> \<and>
   GenreSeedSet_spec ''negative'' ''sad'' = [''indie'', ''alternative'', ''blues'']"
proof -
  have r: "request_params ''negative'' ''sad'' =
     Inr \<lparr>seed_genres = [''indie'', ''alternative'', ''blues''], target_valence = 0.2,
          target_energy = 0.3, target_danceability = 0.4, limit = 10\<rparr>"
    by (simp add: mapper_defs table_defs)
  from seed_set_distinct_in_construction_order [of "''negative''" "''sad''"
      "\<lparr>seed_genres = [''indie'', ''alternative'', ''blues''], target_valence = 0.2,
        target_energy = 0.3, target_danceability = 0.4, limit = 10\<rparr>"] r
  show ?thesis by simp
qed

text \<open>
  C10. The seeds of every request the mapper builds are exactly the first three entries of
  the sentiment's row. Every row, the \<open>neutral\<close> fallback included, has five entries, so
  the seeds are always three and the mood's genres, which come after the five, never
  reach the request. A request is built for all keys but those inherited from
  \<open>Object.prototype\<close>.
\<close>

theorem mood_never_reaches_the_seeds:
  "(request_params s m = Inr p \<longrightarrow>
      seed_genres p = take 3 (sentimentGenres s) \<and> length (seed_genres p) = 3) \<and>
   length (sentimentGenres s) = 5 \<and>
   ((\<exists>q. request_params s m = Inr q) \<longleftrightarrow>
      s \<notin> set Object_prototype_keys \<and> m \<notin> set Object_prototype_keys)"
proof -
  have "seed_genres p = take 3 (sentimentGenres s) \<and> length (seed_genres p) = 3"
    if p: "request_params s m = Inr p"
  proof -
    from p have "s \<notin> set Object_prototype_keys \<and> m \<notin> set Object_prototype_keys"
      using request_params_Inr_iff [of s m] by blast
    with p have "seed_genres p = take 3 (sentimentGenres s)"
      using request_params_returns [of s m] by auto
    then show ?thesis using sentimentGenres_row [of s] by simp
  qed
  then show ?thesis
    using sentimentGenres_row [of s] request_params_Inr_iff [of s m] by blast
qed

theorem mood_never_reaches_the_seeds_witness:
  "request_params ''neutral'' ''angry'' =
     Inr \<lparr>seed_genres = [''chill'', ''acoustic'', ''indie-folk''], target_valence = 0.5,
          target_energy = 0.5, target_danceability = 0.5, limit = 10\<rparr> \<and>
   take 3 (sentimentGenres ''neutral'') = [''chill'', ''acoustic'', ''indie-folk'']"
proof -
  have r: "request_params ''neutral'' ''angry'' =
     Inr \<lparr>seed_genres = [''chill'', ''acoustic'', ''indie-folk''], target_valence = 0.5,
          target_energy = 0.5, target_danceability = 0.5, limit = 10\<rparr>"
    by (simp add: mapper_defs table_defs)
  from mood_never_reaches_the_seeds [of "''neutral''" "''angry''"
      "\<lparr>seed_genres = [''chill'', ''acoustic'', ''indie-folk''], target_valence = 0.5,
        target_energy = 0.5, target_danceability = 0.5, limit = 10\<rparr>"] r
  show ?thesis by simp
qed

section \<open>The audio features\<close>





text \<open>
  The row of \<open>excited\<close> lists all three fields, so the overlay takes each of them from the
  mood, whatever the sentiment.
\<close>

lemma excited_row_lists_every_field:
  "getAudioFeaturesBySentiment ''positive'' ''excited'' =
     \<lparr>valence = Some 0.8, energy = Some 0.9, danceability = Some 0.8\<rparr> \<and>
   getAudioFeaturesBySentiment ''negative'' ''excited'' =
     getAudioFeaturesBySentiment ''positive'' ''excited''"
  by (simp add: mapper_defs table_defs)



section \<open>Keys inherited from \<open>Object.prototype\<close>\<close>

text \<open>
  The fallbacks \<open>|| genreMap.neutral\<close> and \<open>|| []\<close> act on \<open>undefined\<close> only. A key such
  as \<open>constructor\<close> or \<open>toString\<close> reads a truthy built-in, which the array spread cannot
  iterate. Away from those keys the mapper is total and bounded, an unknown sentiment is
  the \<open>neutral\<close> one and an unknown mood adds nothing (\<open>mapper_total_on_other_keys\<close>,
  \<open>unknown_sentiment_is_neutral\<close>, \<open>unknown_mood_adds_nothing\<close>).
\<close>
lemma mapper_total_on_other_keys:
  assumes "s \<notin> set Object_prototype_keys" and "m \<notin> set Object_prototype_keys"
  shows "\<exists>p. request_params s m = Inr p \<and> length (seed_genres p) \<le> 3 \<and>
             in_unit_interval (target_valence p) \<and> in_unit_interval (target_energy p) \<and>
             in_unit_interval (target_danceability p)"
  using request_params_returns [OF assms] by auto

text \<open>
  C3. The sentiment \<open>constructor\<close> is none of \<open>positive\<close>, \<open>negative\<close>, \<open>neutral\<close>, yet
  with it the genre list is a \<open>TypeError\<close> and the features lack \<open>danceability\<close>, where
  \<open>neutral\<close> gives nine genres and a full triple.
\<close>
theorem inherited_sentiment_is_not_neutral:
  "getGenresBySentiment ''constructor'' ''calm'' = Inl TypeError \<and>
   getGenresBySentiment ''neutral'' ''calm'' =
     Inr [''chill'', ''acoustic'', ''indie-folk'', ''ambient'', ''jazz'',
          ''ambient'', ''chill'', ''acoustic'', ''classical''] \<and>
   getAudioFeaturesBySentiment ''constructor'' ''calm'' =
     \<lparr>valence = Some 0.6, energy = Some 0.3, danceability = None\<rparr> \<and>
   getAudioFeaturesBySentiment ''neutral'' ''calm'' =
     \<lparr>valence = Some 0.6, energy = Some 0.3, danceability = Some 0.5\<rparr>"
  by (simp add: mapper_defs table_defs)

text \<open>
  C4. The mood \<open>constructor\<close> is not in the mood enumeration, yet with it no genre list
  and no request come back, where a mood that is in no table (\<open>undefined\<close>, the key a
  missing mood reads) gives the sentiment's own result.
\<close>
theorem inherited_mood_is_not_ignored:
  "getGenresBySentiment ''negative'' ''constructor'' = Inl TypeError \<and>
   request_params ''negative'' ''constructor'' = Inl TypeError \<and>
   getGenresBySentiment ''negative'' ''undefined'' =
     Inr [''indie'', ''alternative'', ''blues'', ''folk'', ''ambient''] \<and>
   request_params ''negative'' ''undefined'' =
     Inr \<lparr>seed_genres = [''indie'', ''alternative'', ''blues''], target_valence = 0.3,
          target_energy = 0.4, target_danceability = 0.4, limit = 10\<rparr>"
  by (simp add: mapper_defs table_defs)

text \<open>
  C5. For the sentiment \<open>positive\<close> of the enumeration and the mood \<open>toString\<close> the mapper
  throws: there is neither a seed list nor a feature triple, and \<open>getRecommendations\<close>
  answers with no track without asking the service.
\<close>
theorem mapper_throws_on_inherited_mood:
  "request_params ''positive'' ''toString'' = Inl TypeError \<and>
   getGenresBySentiment ''positive'' ''toString'' = Inl TypeError \<and>
   getRecommendations fetch ''positive'' ''toString'' = []"
  by (simp add: getRecommendations_def mapper_defs table_defs)

section \<open>\<open>createPlaylist\<close>: three steps\<close>

text \<open>
  A failure of the first or the second step, and a rejected third request, end in \<open>null\<close>,
  and the requests sent stop at the failed one: nothing is sent afterwards to undo the
  playlist the second step created.
\<close>
lemma createPlaylist_user_step_fails:
  "me api = Rejects \<or> me api = Response False body \<or> me api = Response ok None \<Longrightarrow>
   createPlaylist api name trackIds = (None, [GetMe])"
  by (auto simp: createPlaylist_def)

lemma createPlaylist_create_step_fails:
  assumes "me api = Response True (Some u)"
    and "users_playlists api u name = Rejects \<or>
         users_playlists api u name = Response False body \<or>
         users_playlists api u name = Response ok None"
  shows "createPlaylist api name trackIds = (None, [GetMe, PostPlaylist u name])"
  using assms by (auto simp: createPlaylist_def)

lemma createPlaylist_tracks_step_rejects:
  assumes "me api = Response True (Some u)"
    and "users_playlists api u name = Response True (Some pl)"
    and "trackIds \<noteq> []"
    and "playlists_tracks api (playlist_id pl) (track_uris trackIds) = Rejects"
  shows "createPlaylist api name trackIds =
           (None, [GetMe, PostPlaylist u name,
                   PostTracks (playlist_id pl) (track_uris trackIds)])"
  using assms by (simp add: createPlaylist_def add_tracks_def)

lemma createPlaylist_tracks_response_ignored:
  assumes "me api = Response True (Some u)"
    and "users_playlists api u name = Response True (Some pl)"
    and "playlists_tracks api (playlist_id pl) (track_uris trackIds) = Response ok body"
  shows "fst (createPlaylist api name trackIds) = Some pl"
  using assms by (simp add: createPlaylist_def add_tracks_def)

text \<open>
  C7. The steps that resolve the user and create the playlist test \<open>response.ok\<close>; the
  step that adds the tracks does not. When the service refuses the tracks with an error
  status the playlist is returned all the same.
\<close>
theorem refused_tracks_still_return_the_playlist:
  "createPlaylist tracks_refused_api ''Mood mix'' [''t1''] =
     (Some \<lparr>playlist_id = ''p1'', playlist_url = ''https://open.spotify.com/playlist/p1''\<rparr>,
      [GetMe, PostPlaylist ''u1'' ''Mood mix'', PostTracks ''p1'' [''spotify:track:t1'']])"
  by (simp add: createPlaylist_def add_tracks_def tracks_refused_api_def track_uris_def)

section \<open>\<open>analyzeSentiment\<close>: the neutral default\<close>

text \<open>
  A response whose message has no content is malformed, but nothing throws: \<open>'{}'\<close> is
  parsed in its place and the empty object is returned, which is not the default and not
  a \<open>SentimentResult\<close>.
\<close>
theorem empty_content_is_not_the_default:
  "classifier_call_failed parse_empty_object_only (Completion [None]) \<and>
   analyzeSentiment parse_empty_object_only (Completion [None]) = Inr (JObject []) \<and>
   \<not> is_SentimentResult (JObject []) \<and>
   JObject [] \<noteq> neutral_default"
  by (simp add: classifier_call_failed_def analyzeSentiment_def analyzeSentiment_try_def
      content_or_empty_object_def parse_empty_object_only_def is_SentimentResult_def
      neutral_default_def)

text \<open>
  C6 (amended). \<open>analyzeSentiment\<close> never raises. Whenever the \<open>try\<close> block throws, that
  is when the request is rejected, the response has no choice, or \<open>JSON.parse\<close> rejects
  the text, the result is exactly the neutral default. Text that parses is returned as
  parsed, whatever its shape.
\<close>
theorem analyzeSentiment_defaults_on_throw:
  "(\<exists>v. analyzeSentiment JSON_parse response = Inr v) \<and>
   (response = RequestRejects \<or> response = Completion [] \<or>
    (\<exists>content rest e. response = Completion (content # rest) \<and>
       JSON_parse (content_or_empty_object content) = Inl e)
    \<longrightarrow> analyzeSentiment JSON_parse response = Inr neutral_default) \<and>
   (\<forall>content rest v. response = Completion (content # rest) \<and>
       JSON_parse (content_or_empty_object content) = Inr v
    \<longrightarrow> analyzeSentiment JSON_parse response = Inr v)"
  by (auto simp: analyzeSentiment_def analyzeSentiment_try_def
      split: chat_completion.splits list.splits sum.splits)

theorem analyzeSentiment_defaults_on_throw_witness:
  "analyzeSentiment parse_empty_object_only (Completion [Some ''not json'']) = Inr neutral_default \<and>
   analyzeSentiment parse_empty_object_only RequestRejects = Inr neutral_default"
proof -
  have "parse_empty_object_only (content_or_empty_object (Some ''not json'')) = Inl SyntaxError"
    by (simp add: parse_empty_object_only_def content_or_empty_object_def)
  then show ?thesis
    using analyzeSentiment_defaults_on_throw
            [of parse_empty_object_only "Completion [Some ''not json'']"]
          analyzeSentiment_defaults_on_throw [of parse_empty_object_only RequestRejects]
    by blast
qed

section \<open>Listing entries\<close>

lemma findMany_entries_newest_first: "newest_first (findMany_entries store_order db uid n)"
proof -
  let ?rows = "sort_key (\<lambda>e. - date e)
                 (store_order (filter (\<lambda>e. userId e = uid) (entries db)))"
  have "sorted (map (\<lambda>e. - date e) ?rows)" by (rule sorted_sort_key)
  then have "sorted_wrt (\<lambda>a b. date a \<ge> date b) ?rows"
    by (simp add: sorted_map)
  then have "sorted_wrt (\<lambda>a b. date a \<ge> date b) (take n ?rows)"
    by (rule sorted_wrt_take)
  then show ?thesis by (simp add: newest_first_def findMany_entries_def)
qed

lemma findMany_entries_length:
  assumes "reorders store_order"
  shows "length (findMany_entries store_order db uid n) =
           min n (length (filter (\<lambda>e. userId e = uid) (entries db)))"
proof -
  from assms have "mset (store_order (filter (\<lambda>e. userId e = uid) (entries db))) =
      mset (filter (\<lambda>e. userId e = uid) (entries db))"
    by (simp add: reorders_def)
  then have "length (store_order (filter (\<lambda>e. userId e = uid) (entries db))) =
      length (filter (\<lambda>e. userId e = uid) (entries db))"
    by (rule mset_eq_length)
  then show ?thesis by (simp add: findMany_entries_def min.commute)
qed

lemma findMany_entries_rows:
  assumes "reorders store_order"
  shows "set (findMany_entries store_order db uid n) \<subseteq>
           set (filter (\<lambda>e. userId e = uid) (entries db))"
proof -
  from assms have "mset (store_order (filter (\<lambda>e. userId e = uid) (entries db))) =
      mset (filter (\<lambda>e. userId e = uid) (entries db))"
    by (simp add: reorders_def)
  then have "set (store_order (filter (\<lambda>e. userId e = uid) (entries db))) =
      set (filter (\<lambda>e. userId e = uid) (entries db))"
    by (rule mset_eq_setD)
  moreover have "set (findMany_entries store_order db uid n) \<subseteq>
      set (store_order (filter (\<lambda>e. userId e = uid) (entries db)))"
    using set_take_subset [of n "sort_key (\<lambda>e. - date e)
        (store_order (filter (\<lambda>e. userId e = uid) (entries db)))"]
    by (simp add: findMany_entries_def)
  ultimately show ?thesis by simp
qed

lemma same_date_never_strict:
  assumes "\<forall>x \<in> set es. date x = d" and "length es \<ge> 2"
  shows "\<not> strictly_newest_first es"
proof -
  from assms(2) obtain a b rest where "es = a # b # rest"
    by (cases es; cases "tl es") auto
  with assms(1) show ?thesis by (simp add: strictly_newest_first_def)
qed

lemma same_instant_listing_never_strict:
  assumes "reorders store_order"
  shows "\<exists>es. GET store_order (Some ''a@b.c'') (Some same_instant_db) = Inr es \<and>
              length es = 2 \<and> \<not> strictly_newest_first es"
proof -
  let ?es = "findMany_entries store_order same_instant_db ''u1'' 50"
  have get: "GET store_order (Some ''a@b.c'') (Some same_instant_db) = Inr ?es"
    by (simp add: GET_def findUnique_email_def same_instant_db_def)
  have len: "length ?es = 2"
    using findMany_entries_length [OF assms, of same_instant_db "''u1''" 50]
    by (simp add: same_instant_db_def)
  have "\<forall>x \<in> set (filter (\<lambda>e. userId e = ''u1'') (entries same_instant_db)). date x = 1000"
    by (simp add: same_instant_db_def)
  with findMany_entries_rows [OF assms, of same_instant_db "''u1''" 50]
  have "\<forall>x \<in> set ?es. date x = 1000" by blast
  with len have "\<not> strictly_newest_first ?es"
    using same_date_never_strict [of ?es 1000] by simp
  with get len show ?thesis by blast
qed

text \<open>
  Nothing keeps two entries of one user from carrying the same \<open>date\<close>. Whether the store
  yields them as stored or the other way round, the listing holds both and is not
  strictly descending.
\<close>

theorem equal_dates_are_not_strictly_ordered:
  "GET id (Some ''a@b.c'') (Some same_instant_db) =
     Inr [\<lparr>entry_id = ''e1'', userId = ''u1'', content = ''first'', date = 1000\<rparr>,
          \<lparr>entry_id = ''e2'', userId = ''u1'', content = ''second'', date = 1000\<rparr>] \<and>
   GET rev (Some ''a@b.c'') (Some same_instant_db) =
     Inr [\<lparr>entry_id = ''e2'', userId = ''u1'', content = ''second'', date = 1000\<rparr>,
          \<lparr>entry_id = ''e1'', userId = ''u1'', content = ''first'', date = 1000\<rparr>] \<and>
   \<not> strictly_newest_first
       [\<lparr>entry_id = ''e1'', userId = ''u1'', content = ''first'', date = 1000\<rparr>,
        \<lparr>entry_id = ''e2'', userId = ''u1'', content = ''second'', date = 1000\<rparr>] \<and>
   \<not> strictly_newest_first
       [\<lparr>entry_id = ''e2'', userId = ''u1'', content = ''second'', date = 1000\<rparr>,
        \<lparr>entry_id = ''e1'', userId = ''u1'', content = ''first'', date = 1000\<rparr>]"
  by (simp add: GET_def findUnique_email_def findMany_entries_def same_instant_db_def
      strictly_newest_first_def)

text \<open>
  C8 (amended). For a session with an e-mail address that belongs to a user, whatever
  order the store yields rows in, the listing is returned, holds rows of that user only,
  as many as the user has up to 50, and is ordered newest first, not strictly: no entry
  comes before one with a later \<open>date\<close>.
\<close>

theorem listing_capped_and_newest_first:
  assumes "reorders store_order" and "e \<noteq> []" and "findUnique_email db e = Some u"
  shows "\<exists>es. GET store_order (Some e) (Some db) = Inr es \<and> length es \<le> 50 \<and>
              newest_first es \<and>
              length es = min 50 (length (filter (\<lambda>x. userId x = user_id u) (entries db))) \<and>
              set es \<subseteq> set (filter (\<lambda>x. userId x = user_id u) (entries db))"
  using assms(2,3) findMany_entries_newest_first [of store_order db "user_id u" 50]
    findMany_entries_length [OF assms(1), of db "user_id u" 50]
    findMany_entries_rows [OF assms(1), of db "user_id u" 50]
  by (simp add: GET_def)

theorem listing_capped_and_newest_first_witness:
  "\<exists>es. GET rev (Some ''a@b.c'') (Some same_instant_db) = Inr es \<and> length es \<le> 50 \<and>
        newest_first es \<and> length es = 2"
proof -
  have "reorders rev" by (simp add: reorders_def)
  moreover have "''a@b.c'' \<noteq> []" by simp
  moreover have "findUnique_email same_instant_db ''a@b.c'' =
      Some \<lparr>user_id = ''u1'', email = Some ''a@b.c''\<rparr>"
    by (simp add: findUnique_email_def same_instant_db_def)
  ultimately have "\<exists>es. GET rev (Some ''a@b.c'') (Some same_instant_db) = Inr es \<and>
      length es \<le> 50 \<and> newest_first es \<and>
      length es = min 50 (length (filter (\<lambda>x. userId x =
        user_id \<lparr>user_id = ''u1'', email = Some ''a@b.c''\<rparr>) (entries same_instant_db))) \<and>
      set es \<subseteq> set (filter (\<lambda>x. userId x =
        user_id \<lparr>user_id = ''u1'', email = Some ''a@b.c''\<rparr>) (entries same_instant_db))"
    by (rule listing_capped_and_newest_first)
  then show ?thesis by (auto simp: same_instant_db_def)
qed

end
